theory Spec2Isabelle
  imports Main "HOL-Library.Char_ord" "HOL-Library.List_Lexorder" "HOL-Library.AList"
begin

section \<open>Server: routes/files.js\<close>

text \<open>
  The \<^verbatim>\<open>files\<close> table is a list of rows in insertion order, the MinIO bucket a map
  from object keys to objects. Everything a handler reads from outside (the SHA-256
  digest, the UUIDs drawn during the request, the clock, the presigner, Node's
  \<^verbatim>\<open>path.join\<close>, the process environment, whether MinIO answers) is a field of
  \<open>server_env\<close>, so that a handler is a function of the environment, the state and the
  request.
\<close>

type_synonym bytes = "nat list"

record file_row =
  id_row :: string
  user_id :: string
  filename :: string
  file_path :: string
  file_size :: nat
  file_hash :: string
  mime_type :: string
  minio_key :: string
  local_url :: "string option"
  s3_url :: "string option"
  upload_status :: string
  status :: string
  created_at :: nat
  updated_at :: nat

record minio_object =
  object_data :: bytes
  content_type :: string
  x_file_hash :: string

record server =
  files :: "file_row list"
  bucket :: "string \<rightharpoonup> minio_object"

record process_env =
  MINIO_ENDPOINT :: "string option"
  MINIO_PORT :: "string option"
  MINIO_BUCKET :: "string option"
  MINIO_USE_SSL :: "string option"

record server_env =
  sha256_hex :: "bytes \<Rightarrow> string"
  uuidv4 :: string
  gen_random_uuid :: string
  CURRENT_TIMESTAMP :: nat
  presignedGetObject :: "string \<Rightarrow> nat \<Rightarrow> string option"
  path_join :: "string \<Rightarrow> string \<Rightarrow> string"
  env_vars :: process_env
  minio_available :: bool
  uuid_syntax :: "string \<Rightarrow> bool"

record multer_file =
  originalname :: string
  buffer :: bytes
  mimetype :: string
  size_file :: nat

record upload_request =
  req_user :: string
  req_file :: "multer_file option"
  req_filePath :: "string option"
  req_localUrl :: "string option"

record file_view =
  v_id :: string
  v_filename :: string
  v_filePath :: string
  v_fileSize :: nat
  v_fileHash :: string
  v_mimeType :: string
  v_localUrl :: "string option"
  v_s3Url :: "string option"
  v_createdAt :: nat

datatype body = Error string | FileInfo string file_view | Message string

text \<open>
  A handler either answers (\<open>Respond\<close> with the HTTP status and the JSON body) or
  passes a thrown error to Express (\<open>Next\<close>, the \<^verbatim>\<open>catch (error) { next(error) }\<close>
  of every route).
\<close>

datatype outcome = Respond nat body | Next string

definition calculateFileHash :: "server_env \<Rightarrow> bytes \<Rightarrow> string" where
  "calculateFileHash env buf = sha256_hex env buf"

definition generateMinioKey :: "server_env \<Rightarrow> string \<Rightarrow> string \<Rightarrow> string" where
  "generateMinioKey env userId fname =
     (let fileId = uuidv4 env
      in ''users/'' @ userId @ ''/files/'' @ fileId @ ''/'' @ fname)"

text \<open>JavaScript's \<^verbatim>\<open>x || d\<close> on a string that may be undefined.\<close>

definition or_default :: "string option \<Rightarrow> string \<Rightarrow> string" where
  "or_default x d = (case x of None \<Rightarrow> d | Some s \<Rightarrow> (if s = [] then d else s))"

definition truthy :: "string option \<Rightarrow> bool" where
  "truthy x = (case x of None \<Rightarrow> False | Some s \<Rightarrow> s \<noteq> [])"

definition generateS3Url :: "server_env \<Rightarrow> string \<Rightarrow> string" where
  "generateS3Url env minioKey =
     (case presignedGetObject env minioKey (60 * 60) of
        Some presignedUrl \<Rightarrow> presignedUrl
      | None \<Rightarrow>
          (let endpoint = or_default (MINIO_ENDPOINT (env_vars env)) ''localhost'';
               port = or_default (MINIO_PORT (env_vars env)) ''9000'';
               bucket_name = or_default (MINIO_BUCKET (env_vars env)) ''filesync-bucket'';
               useSSL = (MINIO_USE_SSL (env_vars env) = Some ''true'');
               protocol = (if useSSL then ''https'' else ''http'')
           in protocol @ ''://'' @ endpoint @ '':'' @ port @ ''/'' @ bucket_name @ ''/'' @ minioKey))"

text \<open>\<^verbatim>\<open>.replace(/\\/g, '/')\<close>: every backslash becomes a slash.\<close>

definition replace_backslashes :: "string \<Rightarrow> string" where
  "replace_backslashes s = map (\<lambda>c. if c = CHR 0x5C then CHR ''/'' else c) s"

definition fullPath_of :: "server_env \<Rightarrow> upload_request \<Rightarrow> multer_file \<Rightarrow> string" where
  "fullPath_of env req f =
     replace_backslashes
       (path_join env (case req_filePath req of None \<Rightarrow> ''/'' | Some p \<Rightarrow> p) (originalname f))"

definition view_of :: "file_row \<Rightarrow> string option \<Rightarrow> file_view" where
  "view_of r url =
     \<lparr> v_id = id_row r, v_filename = filename r, v_filePath = file_path r,
       v_fileSize = file_size r, v_fileHash = file_hash r, v_mimeType = mime_type r,
       v_localUrl = local_url r, v_s3Url = url, v_createdAt = created_at r \<rparr>"

text \<open>
  The second version of \<^verbatim>\<open>router.post('/upload')\<close>: the duplicate check is by
  \<^verbatim>\<open>(user_id, file_hash, status = 'active')\<close>; a hit answers with the existing
  row (after refreshing its \<^verbatim>\<open>local_url\<close>) and returns before \<^verbatim>\<open>putObject\<close>;
  a miss stores the object under a fresh key and inserts a row.
\<close>

definition existing_by_hash :: "server \<Rightarrow> string \<Rightarrow> string \<Rightarrow> file_row list" where
  "existing_by_hash srv uid h =
     filter (\<lambda>r. user_id r = uid \<and> file_hash r = h \<and> status r = ''active'') (files srv)"

definition set_local_url :: "server_env \<Rightarrow> string option \<Rightarrow> string \<Rightarrow> file_row \<Rightarrow> file_row" where
  "set_local_url env localUrl rid r =
     (if id_row r = rid
      then r\<lparr> local_url := localUrl, updated_at := CURRENT_TIMESTAMP env \<rparr>
      else r)"

definition new_row ::
  "server_env \<Rightarrow> upload_request \<Rightarrow> multer_file \<Rightarrow> string \<Rightarrow> string option \<Rightarrow> string option \<Rightarrow> file_row"
where
  "new_row env req f minioKey localUrl s3Url =
     \<lparr> id_row = gen_random_uuid env, user_id = req_user req, filename = originalname f,
       file_path = fullPath_of env req f, file_size = size_file f,
       file_hash = calculateFileHash env (buffer f), mime_type = mimetype f,
       minio_key = minioKey, local_url = localUrl, s3_url = s3Url,
       upload_status = ''completed'', status = ''active'',
       created_at = CURRENT_TIMESTAMP env, updated_at = CURRENT_TIMESTAMP env \<rparr>"

definition putObject :: "server \<Rightarrow> string \<Rightarrow> multer_file \<Rightarrow> string \<Rightarrow> server" where
  "putObject srv minioKey f fileHash =
     srv\<lparr> bucket := (bucket srv)(minioKey \<mapsto>
       \<lparr> object_data = buffer f, content_type = mimetype f, x_file_hash = fileHash \<rparr>) \<rparr>"

definition upload :: "server_env \<Rightarrow> server \<Rightarrow> upload_request \<Rightarrow> server \<times> outcome" where
  "upload env srv req =
     (case req_file req of
        None \<Rightarrow> (srv, Respond 400 (Error ''No file uploaded''))
      | Some f \<Rightarrow>
          (let fileHash = calculateFileHash env (buffer f);
               localUrl = req_localUrl req
           in case existing_by_hash srv (req_user req) fileHash of
                fileRecord # _ \<Rightarrow>
                  (if truthy localUrl \<and> local_url fileRecord \<noteq> localUrl
                   then (srv\<lparr> files := map (set_local_url env localUrl (id_row fileRecord)) (files srv) \<rparr>,
                         Respond 200 (FileInfo ''File already exists with identical content''
                           (view_of (fileRecord\<lparr> local_url := localUrl \<rparr>)
                              (Some (generateS3Url env (minio_key fileRecord))))))
                   else (srv,
                         Respond 200 (FileInfo ''File already exists with identical content''
                           (view_of fileRecord (Some (generateS3Url env (minio_key fileRecord)))))))
              | [] \<Rightarrow>
                  (let minioKey = generateMinioKey env (req_user req) (originalname f)
                   in if \<not> minio_available env then (srv, Next ''putObject'')
                      else
                        (let srv1 = putObject srv minioKey f fileHash;
                             s3Url = generateS3Url env minioKey;
                             fileRecord = new_row env req f minioKey localUrl (Some s3Url)
                         in (srv1\<lparr> files := files srv1 @ [fileRecord] \<rparr>,
                             Respond 201 (FileInfo ''File uploaded successfully''
                               (view_of fileRecord (s3_url fileRecord))))))))"

text \<open>
  The first version of the same route: the duplicate check is by path, a hit is
  rejected with 409, and the inserted row names no \<^verbatim>\<open>local_url\<close> or \<^verbatim>\<open>s3_url\<close>.
\<close>

definition existing_by_path :: "server \<Rightarrow> string \<Rightarrow> string \<Rightarrow> file_row list" where
  "existing_by_path srv uid p =
     filter (\<lambda>r. user_id r = uid \<and> file_path r = p \<and> status r = ''active'') (files srv)"

definition upload_v1 :: "server_env \<Rightarrow> server \<Rightarrow> upload_request \<Rightarrow> server \<times> outcome" where
  "upload_v1 env srv req =
     (case req_file req of
        None \<Rightarrow> (srv, Respond 400 (Error ''No file uploaded''))
      | Some f \<Rightarrow>
          (let fileHash = calculateFileHash env (buffer f);
               fullPath = fullPath_of env req f
           in if existing_by_path srv (req_user req) fullPath \<noteq> []
              then (srv, Respond 409 (Error ''File already exists at this path''))
              else
                (let minioKey = generateMinioKey env (req_user req) (originalname f)
                 in if \<not> minio_available env then (srv, Next ''putObject'')
                    else
                      (let srv1 = putObject srv minioKey f fileHash;
                           fileRecord = new_row env req f minioKey None None
                       in (srv1\<lparr> files := files srv1 @ [fileRecord] \<rparr>,
                           Respond 201 (FileInfo ''File uploaded successfully''
                             (view_of fileRecord None)))))))"

text \<open>
  \<^verbatim>\<open>router.delete('/:fileId')\<close>, the same in both versions. The \<^verbatim>\<open>id\<close> column
  is of type UUID: PostgreSQL reads the parameter as a uuid, so the SELECT throws on an
  id that is not one (\<open>uuid_syntax\<close> is the database's reading of a uuid) and the
  handler passes the error on; an id that matches a row is one of the stored UUIDs,
  and \<^verbatim>\<open>req.user.id\<close> is the id of the authenticated user.
  When the id is a uuid and the user has no active row with it, the answer is 404;
  otherwise the object under the row's key is removed from the bucket and the row is
  marked \<^verbatim>\<open>'deleted'\<close>.
\<close>

definition active_by_id :: "server \<Rightarrow> string \<Rightarrow> string \<Rightarrow> file_row list" where
  "active_by_id srv fileId uid =
     filter (\<lambda>r. id_row r = fileId \<and> user_id r = uid \<and> status r = ''active'') (files srv)"

definition mark_deleted :: "server_env \<Rightarrow> string \<Rightarrow> file_row \<Rightarrow> file_row" where
  "mark_deleted env fileId r =
     (if id_row r = fileId
      then r\<lparr> status := ''deleted'', updated_at := CURRENT_TIMESTAMP env \<rparr>
      else r)"

definition delete_file :: "server_env \<Rightarrow> server \<Rightarrow> string \<Rightarrow> string \<Rightarrow> server \<times> outcome" where
  "delete_file env srv uid fileId =
     (case active_by_id srv fileId uid of
        [] \<Rightarrow>
          (if uuid_syntax env fileId then (srv, Respond 404 (Error ''File not found''))
           else (srv, Next ''invalid input syntax for type uuid''))
      | file # _ \<Rightarrow>
          (if \<not> minio_available env then (srv, Next ''removeObject'')
           else (srv\<lparr> bucket := (bucket srv)(minio_key file := None),
                      files := map (mark_deleted env fileId) (files srv) \<rparr>,
                 Respond 200 (Message ''File deleted successfully''))))"

text \<open>
  A sample environment and requests, used to run the handlers on concrete inputs. The
  digest is a stand-in, identifiers are abbreviated (\<^verbatim>\<open>row1\<close> stands for a UUID),
  and the sample database reads every non-empty id as a uuid.
\<close>

definition sample_env :: "string \<Rightarrow> string \<Rightarrow> nat \<Rightarrow> server_env" where
  "sample_env u1 u2 t =
     \<lparr> sha256_hex = map char_of, uuidv4 = u1, gen_random_uuid = u2, CURRENT_TIMESTAMP = t,
       presignedGetObject = (\<lambda>k ttl. Some (''http://minio/'' @ k @ ''?sig'')),
       path_join = (\<lambda>a b. a @ b),
       env_vars = \<lparr> MINIO_ENDPOINT = None, MINIO_PORT = None, MINIO_BUCKET = None,
                    MINIO_USE_SSL = None \<rparr>,
       minio_available = True,
       uuid_syntax = (\<lambda>s. s \<noteq> []) \<rparr>"

definition sample_request :: "string \<Rightarrow> string \<Rightarrow> bytes \<Rightarrow> upload_request" where
  "sample_request u name content =
     \<lparr> req_user = u,
       req_file = Some \<lparr> originalname = name, buffer = content, mimetype = ''text/plain'',
                         size_file = length content \<rparr>,
       req_filePath = None, req_localUrl = None \<rparr>"

definition empty_server :: server where
  "empty_server = \<lparr> files = [], bucket = Map.empty \<rparr>"

definition one_file_server :: server where
  "one_file_server =
     fst (upload (sample_env ''id1'' ''row1'' 1) empty_server (sample_request ''u'' ''a.txt'' [1, 2]))"

section \<open>Client: lib/sync.js, downloadFile of lib/api.js, the unlink handler of lib/file-watcher.js\<close>

text \<open>
  The device is its watched directory (a map from paths to contents), the module
  variable \<^verbatim>\<open>lastSyncAt\<close>, the console, and the requests it has sent through
  \<^verbatim>\<open>lib/api.js\<close>. What the server answers is a field of \<open>client_env\<close>.

  An entry of \<^verbatim>\<open>changedFiles\<close> is JSON. Its \<^verbatim>\<open>file_size\<close> is the value the
  server sent: a number, or a string, which is how node-postgres delivers the BIGINT
  column \<^verbatim>\<open>file_size\<close> of \<^verbatim>\<open>scripts/migrate.js\<close>, or anything else (\<open>JNull\<close>).
\<close>

datatype json_value = JNumber int | JString string | JNull

record fileMetadata =
  id_md :: string
  filename_md :: string
  file_path_md :: string
  file_size_md :: json_value
  file_hash_md :: string

text \<open>
  \<^verbatim>\<open>api.downloadFile\<close> returns a promise that settles only on the write stream's
  \<^verbatim>\<open>'finish'\<close> or \<^verbatim>\<open>'error'\<close>. It throws before the file is opened
  (\<open>RequestFailed\<close>: the URL request, the GET or the mkdir fails), or rejects after
  \<^verbatim>\<open>createWriteStream\<close> has opened the file and written part of it
  (\<open>WriteFailed\<close>), or resolves on \<^verbatim>\<open>'finish'\<close> (\<open>Finished\<close>), or never settles
  (\<open>NeverSettles\<close>): the GET of the object has no timeout and may never answer
  (nothing is written), and when the response stream breaks after the headers,
  \<^verbatim>\<open>pipe\<close> neither ends nor fails the write stream (the file is open and holds
  what was written so far). An \<^verbatim>\<open>await\<close> of a promise that never settles never
  resumes.
\<close>

datatype download_result =
    Finished bytes
  | RequestFailed string
  | WriteFailed bytes string
  | NeverSettles "bytes option"

datatype api_call =
    Authenticate
  | UploadFile string string
  | DownloadFile string string
  | ListFiles string
  | DeleteFile string
  | InitSync string "string option"
  | CompleteSync string

datatype log_line =
    LogStarting
  | LogFound nat
  | LogUnchanged string
  | LogDownloading string
  | LogDownloadFailed string string
  | LogNoChanges
  | LogCompleted
  | LogSyncFailed string
  | LogDeletedLocally string

record syncData =
  changedFiles :: "fileMetadata list"
  session_id :: string
  serverTime :: "string option"

record client_env =
  WATCH_DIRECTORY :: string
  DEVICE_ID :: string
  client_path_join :: "string \<Rightarrow> string \<Rightarrow> string"
  client_path_relative :: "string \<Rightarrow> string \<Rightarrow> string"
  api_initSync :: "string \<Rightarrow> string option \<Rightarrow> string + syncData"
  api_downloadFile :: "string \<Rightarrow> string \<Rightarrow> download_result"
  api_completeSync :: "string \<Rightarrow> string option"

record client =
  local_files :: "string \<rightharpoonup> bytes"
  lastSyncAt :: "string option"
  console :: "log_line list"
  requests :: "api_call list"

text \<open>
  An async function of the client either returns, in the state it has reached, or
  hangs on an \<^verbatim>\<open>await\<close> that never resumes, in the state reached by then.
\<close>

datatype run = Returns client | Hangs client

fun state_of :: "run \<Rightarrow> client" where
  "state_of (Returns c) = c"
| "state_of (Hangs c) = c"

fun hangs :: "run \<Rightarrow> bool" where
  "hangs (Returns c) = False"
| "hangs (Hangs c) = True"

definition say :: "log_line \<Rightarrow> client \<Rightarrow> client" where
  "say l c = c\<lparr> console := console c @ [l] \<rparr>"

definition send :: "api_call \<Rightarrow> client \<Rightarrow> client" where
  "send r c = c\<lparr> requests := requests c @ [r] \<rparr>"

definition localPath_of :: "client_env \<Rightarrow> fileMetadata \<Rightarrow> string" where
  "localPath_of env fileMetadata =
     client_path_join env (WATCH_DIRECTORY env) (file_path_md fileMetadata)"

text \<open>
  \<^verbatim>\<open>stats.size === fileMetadata.file_size\<close>: strict equality of the local size, a
  number, with the JSON value. It holds of an equal number and of nothing else; a
  string is never strictly equal to a number.
\<close>

definition strict_equal_size :: "nat \<Rightarrow> json_value \<Rightarrow> bool" where
  "strict_equal_size n v = (case v of JNumber k \<Rightarrow> k = int n | JString s \<Rightarrow> False | JNull \<Rightarrow> False)"

text \<open>
  \<^verbatim>\<open>pathExists\<close> and the size test: the file is reported unchanged when a local
  file is at the path and its size is strictly equal to the entry's \<^verbatim>\<open>file_size\<close>.
\<close>

definition same_size_exists :: "client_env \<Rightarrow> client \<Rightarrow> fileMetadata \<Rightarrow> bool" where
  "same_size_exists env c fileMetadata =
     (case local_files c (localPath_of env fileMetadata) of
        None \<Rightarrow> False
      | Some content \<Rightarrow> strict_equal_size (length content) (file_size_md fileMetadata))"

definition written :: "string \<Rightarrow> bytes option \<Rightarrow> client \<Rightarrow> client" where
  "written localPath w c =
     (case w of None \<Rightarrow> c | Some partial \<Rightarrow> c\<lparr> local_files := (local_files c)(localPath \<mapsto> partial) \<rparr>)"

definition downloadFileFromServer :: "client_env \<Rightarrow> client \<Rightarrow> fileMetadata \<Rightarrow> run" where
  "downloadFileFromServer env c fileMetadata =
     (let localPath = localPath_of env fileMetadata
      in if same_size_exists env c fileMetadata
         then Returns (say (LogUnchanged (filename_md fileMetadata)) c)
         else
           (let c1 = send (DownloadFile (id_md fileMetadata) localPath)
                       (say (LogDownloading (filename_md fileMetadata)) c)
            in case api_downloadFile env (id_md fileMetadata) localPath of
                 Finished content \<Rightarrow>
                   Returns (written localPath (Some content) c1)
               | RequestFailed msg \<Rightarrow>
                   Returns (say (LogDownloadFailed (filename_md fileMetadata) msg) c1)
               | WriteFailed partial msg \<Rightarrow>
                   Returns (say (LogDownloadFailed (filename_md fileMetadata) msg)
                     (written localPath (Some partial) c1))
               | NeverSettles w \<Rightarrow>
                   Hangs (written localPath w c1)))"

text \<open>
  The \<^verbatim>\<open>for (const file of syncData.changedFiles)\<close> loop with its
  \<^verbatim>\<open>await downloadFileFromServer(file)\<close>: the next file is reached only when the
  await resumes.
\<close>

fun downloadAll :: "client_env \<Rightarrow> client \<Rightarrow> fileMetadata list \<Rightarrow> run" where
  "downloadAll env c [] = Returns c"
| "downloadAll env c (file # rest) =
     (case downloadFileFromServer env c file of
        Returns c1 \<Rightarrow> downloadAll env c1 rest
      | Hangs c1 \<Rightarrow> Hangs c1)"

definition completeSync_step :: "client_env \<Rightarrow> syncData \<Rightarrow> client \<Rightarrow> client" where
  "completeSync_step env sd c1 =
     (let c2 = send (CompleteSync (session_id sd)) c1
      in case api_completeSync env (session_id sd) of
           Some msg \<Rightarrow> say (LogSyncFailed msg) c2
         | None \<Rightarrow> say LogCompleted (c2\<lparr> lastSyncAt := serverTime sd \<rparr>))"

definition performSync :: "client_env \<Rightarrow> client \<Rightarrow> run" where
  "performSync env c =
     (let payload = (if truthy (lastSyncAt c) then lastSyncAt c else None);
          c0 = send (InitSync (DEVICE_ID env) payload) (say LogStarting c)
      in case api_initSync env (DEVICE_ID env) payload of
           Inl msg \<Rightarrow> Returns (say (LogSyncFailed msg) c0)
         | Inr sd \<Rightarrow>
             (case (if length (changedFiles sd) > 0
                    then downloadAll env (say (LogFound (length (changedFiles sd))) c0)
                           (changedFiles sd)
                    else Returns (say LogNoChanges c0)) of
                Hangs c1 \<Rightarrow> Hangs c1
              | Returns c1 \<Rightarrow> Returns (completeSync_step env sd c1)))"

text \<open>
  The watcher's \<^verbatim>\<open>'unlink'\<close> handler: it computes the relative path and logs it.
  \<open>user_deletes\<close> is the event as the device sees it: the file leaves the watched
  directory, then the handler runs.
\<close>

definition on_unlink :: "client_env \<Rightarrow> client \<Rightarrow> string \<Rightarrow> client" where
  "on_unlink env c filePath =
     (let relativePath = client_path_relative env (WATCH_DIRECTORY env) filePath
      in say (LogDeletedLocally relativePath) c)"

definition user_deletes :: "client_env \<Rightarrow> client \<Rightarrow> string \<Rightarrow> client" where
  "user_deletes env c filePath =
     on_unlink env (c\<lparr> local_files := (local_files c)(filePath := None) \<rparr>) filePath"

text \<open>The delete requests among the requests sent.\<close>

fun delete_requests :: "api_call list \<Rightarrow> string list" where
  "delete_requests [] = []"
| "delete_requests (DeleteFile i # rs) = i # delete_requests rs"
| "delete_requests (_ # rs) = delete_requests rs"

text \<open>A sample device and server answers.\<close>

definition meta :: "string \<Rightarrow> string \<Rightarrow> string \<Rightarrow> json_value \<Rightarrow> fileMetadata" where
  "meta i name h n =
     \<lparr> id_md = i, filename_md = name, file_path_md = ''/'' @ name, file_size_md = n,
       file_hash_md = h \<rparr>"

definition sample_client_env :: "fileMetadata list \<Rightarrow> (string \<Rightarrow> download_result) \<Rightarrow> client_env" where
  "sample_client_env changed dl =
     \<lparr> WATCH_DIRECTORY = ''sync'', DEVICE_ID = ''laptop-001'',
       client_path_join = (\<lambda>a b. a @ b),
       client_path_relative = (\<lambda>a b. drop (Suc (length a)) b),
       api_initSync = (\<lambda>d l. Inr \<lparr> changedFiles = changed, session_id = ''s1'',
                                    serverTime = Some ''t1'' \<rparr>),
       api_downloadFile = (\<lambda>i p. dl i),
       api_completeSync = (\<lambda>s. None) \<rparr>"

definition sample_client :: "(string \<times> bytes) list \<Rightarrow> client" where
  "sample_client fs = \<lparr> local_files = map_of fs, lastSyncAt = None, console = [], requests = [] \<rparr>"

section \<open>The hash tree\<close>

text \<open>
  Modelled from the spec: the tree of \<^verbatim>\<open>Client/lib/merkle-tree.js\<close>, which is not
  among the sources. An entry is the spec's FileEntry; the tree keeps its entries as an
  association list in insertion order with one pair per path (the spec's
  map from path to entry), its \<open>rootHash\<close> and its \<open>version\<close>.
\<close>

record FileEntry =
  path :: string
  contentHash :: string
  size_entry :: nat
  mimeType :: string
  modifiedAt :: nat
  localRef :: "string option"
  remoteKey :: "string option"

record metadata =
  m_size :: nat
  m_mimeType :: string
  m_modifiedAt :: nat
  m_localRef :: "string option"

record Tree =
  deviceId :: string
  entries :: "(string \<times> FileEntry) list"
  rootHash :: string
  version :: nat

text \<open>
  Modelled from the spec: the digest itself is not fixed by the spec, so the two hashing
  steps are parameters: a leaf combines an entry's path with its \<open>contentHash\<close>, an
  internal node combines the hashes of its children, given in order.
\<close>

record hasher =
  leaf_hash :: "string \<Rightarrow> string \<Rightarrow> string"
  node_hash :: "string list \<Rightarrow> string"

text \<open>
  Modelled from the spec: \<open>rootHash\<close> is recomputed from the flat entry map, the leaves
  taken in path order (the spec's path-keyed sorted join).
\<close>

definition leaves :: "hasher \<Rightarrow> (string \<times> FileEntry) list \<Rightarrow> string list" where
  "leaves hs es = map (\<lambda>(p, e). leaf_hash hs p (contentHash e)) (sort_key fst es)"

definition rootHashOf :: "hasher \<Rightarrow> (string \<times> FileEntry) list \<Rightarrow> string" where
  "rootHashOf hs es = node_hash hs (leaves hs es)"

definition emptyTree :: "hasher \<Rightarrow> string \<Rightarrow> Tree" where
  "emptyTree hs dev = \<lparr> deviceId = dev, entries = [], rootHash = rootHashOf hs [], version = 0 \<rparr>"

text \<open>
  Modelled from the spec: \<open>upsert\<close> inserts or replaces the entry at the path, clears
  its \<open>remoteKey\<close>, recomputes \<open>rootHash\<close> and increments \<open>version\<close>.
\<close>

definition upsert :: "hasher \<Rightarrow> string \<Rightarrow> string \<Rightarrow> metadata \<Rightarrow> Tree \<Rightarrow> Tree" where
  "upsert hs p h m T =
     (let e = \<lparr> path = p, contentHash = h, size_entry = m_size m, mimeType = m_mimeType m,
                modifiedAt = m_modifiedAt m, localRef = m_localRef m, remoteKey = None \<rparr>;
          es = AList.update p e (entries T)
      in T\<lparr> entries := es, rootHash := rootHashOf hs es, version := version T + 1 \<rparr>)"

text \<open>Modelled from the spec: a tree built by a sequence of insertions, in the order given.\<close>

fun build :: "hasher \<Rightarrow> Tree \<Rightarrow> (string \<times> string \<times> metadata) list \<Rightarrow> Tree" where
  "build hs T [] = T"
| "build hs T ((p, h, m) # rest) = build hs (upsert hs p h m T) rest"

text \<open>Modelled from the spec: the entry set of a tree, by path and \<open>contentHash\<close>.\<close>

definition entry_set :: "Tree \<Rightarrow> (string \<times> string) set" where
  "entry_set T = set (map (\<lambda>(p, e). (p, contentHash e)) (entries T))"

text \<open>
  Modelled from the spec: \<open>remove\<close> deletes the entry at the path, recomputes
  \<open>rootHash\<close> and increments \<open>version\<close>; when the path is absent it is a no-op that
  returns the tree as it is and fails with nothing. (The name \<open>remove\<close> is a
  constant of the library.)
\<close>

definition remove_path :: "hasher \<Rightarrow> string \<Rightarrow> Tree \<Rightarrow> Tree" where
  "remove_path hs p T =
     (if p \<in> set (map fst (entries T))
      then (let es = AList.delete p (entries T)
            in T\<lparr> entries := es, rootHash := rootHashOf hs es, version := version T + 1 \<rparr>)
      else T)"

definition sample_hasher :: hasher where
  "sample_hasher = \<lparr> leaf_hash = (\<lambda>p h. p @ ''='' @ h), node_hash = (\<lambda>hs. concat (map (\<lambda>h. h @ '';'') hs)) \<rparr>"

definition sample_meta :: metadata where
  "sample_meta = \<lparr> m_size = 1, m_mimeType = ''text/plain'', m_modifiedAt = 0, m_localRef = None \<rparr>"

text \<open>
  Modelled from the spec: the part of an entry that the entry set compares, and the
  invariant of a tree: one pair per path, and a \<open>rootHash\<close> that is the recomputed one.
\<close>

definition proj :: "string \<times> FileEntry \<Rightarrow> string \<times> string" where
  "proj pe = (fst pe, contentHash (snd pe))"

definition consistent :: "hasher \<Rightarrow> Tree \<Rightarrow> bool" where
  "consistent hs T = (distinct (map fst (entries T)) \<and> rootHash T = rootHashOf hs (entries T))"

text \<open>
  A device that holds \<^verbatim>\<open>a.txt\<close> (two bytes), a server that reports no change,
  the entry the server sends for that file when it has stored the same two bytes (the
  size as the BIGINT column delivers it), and a server that reports three changed
  files of which the download of the second breaks after the headers.
\<close>

definition local_a :: client where
  "local_a = sample_client [(''sync/a.txt'', [1, 2])]"

definition answers :: client_env where
  "answers = sample_client_env [] (\<lambda>i. Finished [1, 2])"


definition three_changed :: "fileMetadata list" where
  "three_changed =
     [meta ''f1'' ''a.txt'' ''h1'' (JString ''2''), meta ''f2'' ''b.txt'' ''h2'' (JString ''3''),
      meta ''f3'' ''c.txt'' ''h3'' (JString ''4'')]"

definition second_breaks :: client_env where
  "second_breaks = sample_client_env three_changed
     (\<lambda>i. if i = ''f2'' then NeverSettles (Some [5]) else Finished [1, 2])"

definition tree_ab :: Tree where
  "tree_ab = build sample_hasher (emptyTree sample_hasher ''x'')
     [(''b.txt'', ''h2'', sample_meta), (''a.txt'', ''h1'', sample_meta)]"

text \<open>
  The row and the object that the sample upload of \<^verbatim>\<open>a.txt\<close> creates, a second row
  for the same bytes under another name, and the state after the first version of the
  route has stored the same two bytes under both names.
\<close>

definition row_a :: file_row where
  "row_a = \<lparr> id_row = ''row1'', user_id = ''u'', filename = ''a.txt'', file_path = ''/a.txt'',
        file_size = 2, file_hash = map char_of [1, 2::nat], mime_type = ''text/plain'',
        minio_key = ''users/u/files/id1/a.txt'', local_url = None,
        s3_url = Some ''http://minio/users/u/files/id1/a.txt?sig'',
        upload_status = ''completed'', status = ''active'', created_at = 1, updated_at = 1 \<rparr>"

definition object_12 :: minio_object where
  "object_12 = \<lparr> object_data = [1, 2], content_type = ''text/plain'', x_file_hash = map char_of [1, 2::nat] \<rparr>"

definition row_b :: file_row where
  "row_b = \<lparr> id_row = ''row2'', user_id = ''u'', filename = ''b.txt'', file_path = ''/b.txt'',
        file_size = 2, file_hash = map char_of [1, 2::nat], mime_type = ''text/plain'',
        minio_key = ''users/u/files/id2/b.txt'', local_url = None, s3_url = None,
        upload_status = ''completed'', status = ''active'', created_at = 2, updated_at = 2 \<rparr>"

definition two_file_server :: server where
  "two_file_server =
     fst (upload_v1 (sample_env ''id2'' ''row2'' 2)
            (fst (upload_v1 (sample_env ''id1'' ''row1'' 1) empty_server
                    (sample_request ''u'' ''a.txt'' [1, 2])))
            (sample_request ''u'' ''b.txt'' [1, 2]))"

section \<open>Upload of content that is already stored\<close>

lemma existing_by_hash_nonempty:
  "r \<in> set (files srv) \<Longrightarrow> user_id r = uid \<Longrightarrow> file_hash r = h \<Longrightarrow> status r = ''active''
   \<Longrightarrow> existing_by_hash srv uid h \<noteq> []"
  by (auto simp: existing_by_hash_def filter_empty_conv)

lemma existing_by_hash_hd:
  assumes "existing_by_hash srv uid h = r0 # rest"
  shows "r0 \<in> set (files srv) \<and> user_id r0 = uid \<and> file_hash r0 = h \<and> status r0 = ''active''"
proof -
  have "r0 \<in> set (existing_by_hash srv uid h)"
    by (simp add: assms)
  then show ?thesis
    by (simp add: existing_by_hash_def)
qed

lemma minio_key_set_local_url: "minio_key (set_local_url env lu rid r) = minio_key r"
  by (simp add: set_local_url_def)

lemma upload_hit:
  assumes f: "req_file req = Some f"
    and hit: "existing_by_hash srv (req_user req) (calculateFileHash env (buffer f)) = r0 # rest"
  shows "bucket (fst (upload env srv req)) = bucket srv"
    and "map minio_key (files (fst (upload env srv req))) = map minio_key (files srv)"
    and "\<exists>v. snd (upload env srv req) =
            Respond 200 (FileInfo ''File already exists with identical content'' v)
          \<and> v_id v = id_row r0 \<and> v_s3Url v = Some (generateS3Url env (minio_key r0))"
  using f hit
  by (simp_all add: upload_def Let_def view_of_def minio_key_set_local_url comp_def)

lemma one_file_server_files:
  "files one_file_server =
     [\<lparr> id_row = ''row1'', user_id = ''u'', filename = ''a.txt'', file_path = ''/a.txt'',
        file_size = 2, file_hash = map char_of [1, 2::nat], mime_type = ''text/plain'',
        minio_key = ''users/u/files/id1/a.txt'', local_url = None,
        s3_url = Some ''http://minio/users/u/files/id1/a.txt?sig'',
        upload_status = ''completed'', status = ''active'', created_at = 1, updated_at = 1 \<rparr>]"
  by (simp add: one_file_server_def upload_def sample_env_def sample_request_def empty_server_def
      existing_by_hash_def calculateFileHash_def generateMinioKey_def putObject_def new_row_def
      generateS3Url_def fullPath_of_def replace_backslashes_def Let_def)

text \<open>
  C3. When the user already has an active row whose \<^verbatim>\<open>file_hash\<close> is the hash of the
  uploaded bytes, the upload route writes nothing to the bucket and adds no row (the
  storage keys recorded in the table are the same afterwards), and it answers 200 with
  an existing row of that user and hash and a URL generated from that row's
  \<^verbatim>\<open>minio_key\<close>: the existing key is reused and the bytes are not stored again.
\<close>

theorem upload_dedup_no_second_put:
  assumes f: "req_file req = Some f"
    and r: "r \<in> set (files srv)" "user_id r = req_user req"
      "file_hash r = calculateFileHash env (buffer f)" "status r = ''active''"
  shows "bucket (fst (upload env srv req)) = bucket srv
    \<and> map minio_key (files (fst (upload env srv req))) = map minio_key (files srv)
    \<and> (\<exists>r0 v. r0 \<in> set (files srv) \<and> user_id r0 = req_user req
          \<and> file_hash r0 = file_hash r \<and> status r0 = ''active''
          \<and> snd (upload env srv req) =
               Respond 200 (FileInfo ''File already exists with identical content'' v)
          \<and> v_id v = id_row r0 \<and> v_s3Url v = Some (generateS3Url env (minio_key r0)))"
proof -
  obtain r0 rest where hit:
    "existing_by_hash srv (req_user req) (calculateFileHash env (buffer f)) = r0 # rest"
    using existing_by_hash_nonempty [OF r(1) r(2) r(3) r(4)]
    by (cases "existing_by_hash srv (req_user req) (calculateFileHash env (buffer f))") auto
  from existing_by_hash_hd [OF hit] upload_hit [OF f hit] r(3)
  show ?thesis by auto
qed

theorem upload_dedup_witness:
  "req_file (sample_request ''u'' ''b.txt'' [1, 2]) =
     Some \<lparr> originalname = ''b.txt'', buffer = [1, 2], mimetype = ''text/plain'', size_file = 2 \<rparr>
   \<and> hd (files one_file_server) \<in> set (files one_file_server)
   \<and> user_id (hd (files one_file_server)) = ''u''
   \<and> status (hd (files one_file_server)) = ''active''
   \<and> bucket (fst (upload (sample_env ''id2'' ''row2'' 2) one_file_server
                  (sample_request ''u'' ''b.txt'' [1, 2]))) = bucket one_file_server
   \<and> map minio_key (files (fst (upload (sample_env ''id2'' ''row2'' 2) one_file_server
                  (sample_request ''u'' ''b.txt'' [1, 2])))) = [''users/u/files/id1/a.txt'']"
  using upload_dedup_no_second_put
    [of "sample_request ''u'' ''b.txt'' [1, 2]"
        "\<lparr> originalname = ''b.txt'', buffer = [1, 2], mimetype = ''text/plain'', size_file = 2 \<rparr>"
        "hd (files one_file_server)" one_file_server "sample_env ''id2'' ''row2'' 2"]
  by (simp add: one_file_server_files sample_request_def sample_env_def calculateFileHash_def)

section \<open>The root hash does not depend on the insertion order\<close>

lemma fst_proj: "fst (proj pe) = fst pe"
  by (simp add: proj_def)

lemma leaves_proj:
  "leaves hs es = map (\<lambda>(p, h). leaf_hash hs p h) (map proj (sort_key fst es))"
  by (simp add: leaves_def proj_def split_def)

lemma entry_set_proj: "entry_set T = proj ` set (entries T)"
  by (auto simp: entry_set_def proj_def split_def)

lemma distinct_keys_sort: "distinct (map fst (sort_key fst es)) = distinct (map fst es)"
  by (simp add: distinct_map)

text \<open>
  Two entry lists with one pair per path and the same (path, contentHash) pairs give
  the same list of such pairs once sorted by path: a list sorted by a key that is
  distinct on it is determined by its set.
\<close>

lemma sorted_proj_unique:
  assumes dx: "distinct (map fst xs)" and dy: "distinct (map fst ys)"
    and eq: "proj ` set xs = proj ` set ys"
  shows "map proj (sort_key fst xs) = map proj (sort_key fst ys)"
proof -
  let ?A = "map proj (sort_key fst xs)" and ?B = "map proj (sort_key fst ys)"
  have fA: "map fst ?A = map fst (sort_key fst xs)"
    and fB: "map fst ?B = map fst (sort_key fst ys)"
    by (simp_all add: fst_proj)
  have sA: "sorted (map fst ?A)" and sB: "sorted (map fst ?B)"
    unfolding fA fB by simp_all
  have dA: "distinct (map fst ?A)" and dB: "distinct (map fst ?B)"
    unfolding fA fB using dx dy by (simp_all add: distinct_keys_sort del: distinct_map)
  have set_eq: "set ?A = set ?B"
    using eq by simp
  have "inj_on fst (set ?A)"
    using dA by (simp only: distinct_map)
  then have inj: "inj_on fst (set ?A \<union> set ?B)"
    using set_eq by simp
  show ?thesis
    by (rule map_sorted_distinct_set_unique [OF inj sA dA sB dB set_eq])
qed

lemma upsert_entries:
  "entries (upsert hs p h m T) =
     AList.update p
       \<lparr> path = p, contentHash = h, size_entry = m_size m, mimeType = m_mimeType m,
         modifiedAt = m_modifiedAt m, localRef = m_localRef m, remoteKey = None \<rparr>
       (entries T)"
  by (simp add: upsert_def Let_def)

lemma upsert_rootHash:
  "rootHash (upsert hs p h m T) = rootHashOf hs (entries (upsert hs p h m T))"
  by (simp add: upsert_def Let_def)

lemma upsert_distinct:
  "distinct (map fst (entries T)) \<Longrightarrow> distinct (map fst (entries (upsert hs p h m T)))"
  unfolding upsert_entries by (rule distinct_update)

lemma consistent_empty: "consistent hs (emptyTree hs dev)"
  by (simp add: consistent_def emptyTree_def)

lemma consistent_upsert: "consistent hs T \<Longrightarrow> consistent hs (upsert hs p h m T)"
  by (simp add: consistent_def upsert_distinct upsert_rootHash del: distinct_map)

lemma consistent_build: "consistent hs T \<Longrightarrow> consistent hs (build hs T xs)"
  by (induction hs T xs rule: build.induct) (simp_all add: consistent_upsert)

lemma consistent_rootHash_eq:
  assumes "consistent hs A" "consistent hs B" "entry_set A = entry_set B"
  shows "rootHash A = rootHash B"
proof -
  have "map proj (sort_key fst (entries A)) = map proj (sort_key fst (entries B))"
    using assms
    by (intro sorted_proj_unique) (simp_all add: consistent_def entry_set_proj del: distinct_map)
  then have "leaves hs (entries A) = leaves hs (entries B)"
    by (simp only: leaves_proj)
  then show ?thesis
    using assms(1,2) by (simp add: consistent_def rootHashOf_def)
qed

text \<open>
  C1. Two trees built from the empty tree by any two sequences of insertions, on any
  two devices and with any leaf and node hash, have the same \<open>rootHash\<close> whenever their
  entry sets, taken by path and contentHash, are equal: the \<open>rootHash\<close> is a function
  of the entry set, whatever the order of insertion was.
\<close>

theorem rootHash_insertion_order:
  assumes "entry_set (build hs (emptyTree hs d1) xs) = entry_set (build hs (emptyTree hs d2) ys)"
  shows "rootHash (build hs (emptyTree hs d1) xs) = rootHash (build hs (emptyTree hs d2) ys)"
  using assms consistent_build [OF consistent_empty]
  by (intro consistent_rootHash_eq [of hs]) simp_all

theorem rootHash_insertion_order_witness:
  "entry_set (build sample_hasher (emptyTree sample_hasher ''x'')
       [(''b.txt'', ''h2'', sample_meta), (''a.txt'', ''h1'', sample_meta)])
   = entry_set (build sample_hasher (emptyTree sample_hasher ''y'')
       [(''a.txt'', ''h0'', sample_meta), (''a.txt'', ''h1'', sample_meta),
        (''b.txt'', ''h2'', sample_meta)])
   \<and> rootHash (build sample_hasher (emptyTree sample_hasher ''x'')
       [(''b.txt'', ''h2'', sample_meta), (''a.txt'', ''h1'', sample_meta)])
   = rootHash (build sample_hasher (emptyTree sample_hasher ''y'')
       [(''a.txt'', ''h0'', sample_meta), (''a.txt'', ''h1'', sample_meta),
        (''b.txt'', ''h2'', sample_meta)])
   \<and> map fst (entries (build sample_hasher (emptyTree sample_hasher ''x'')
       [(''b.txt'', ''h2'', sample_meta), (''a.txt'', ''h1'', sample_meta)]))
     = [''b.txt'', ''a.txt'']
   \<and> map fst (entries (build sample_hasher (emptyTree sample_hasher ''y'')
       [(''a.txt'', ''h0'', sample_meta), (''a.txt'', ''h1'', sample_meta),
        (''b.txt'', ''h2'', sample_meta)]))
     = [''a.txt'', ''b.txt'']"
proof -
  have e: "entry_set (build sample_hasher (emptyTree sample_hasher ''x'')
       [(''b.txt'', ''h2'', sample_meta), (''a.txt'', ''h1'', sample_meta)])
   = entry_set (build sample_hasher (emptyTree sample_hasher ''y'')
       [(''a.txt'', ''h0'', sample_meta), (''a.txt'', ''h1'', sample_meta),
        (''b.txt'', ''h2'', sample_meta)])"
    by (auto simp: entry_set_def upsert_def emptyTree_def Let_def)
  show ?thesis
    using e rootHash_insertion_order [OF e]
    by (simp add: upsert_def emptyTree_def Let_def)
qed

section \<open>Removing a path from the tree\<close>

lemma remove_path_absent: "p \<notin> set (map fst (entries T)) \<Longrightarrow> remove_path hs p T = T"
  by (simp add: remove_path_def)

lemma remove_path_entries: "entries (remove_path hs p T) = AList.delete p (entries T)"
  by (simp add: remove_path_def Let_def)

lemma remove_path_gone: "p \<notin> set (map fst (entries (remove_path hs p T)))"
  using delete_notin_dom [of p "entries T"] by (simp add: remove_path_entries)

lemma remove_path_twice: "remove_path hs p (remove_path hs p T) = remove_path hs p T"
  by (rule remove_path_absent [OF remove_path_gone])

lemma remove_path_consistent:
  assumes "consistent hs T"
  shows "consistent hs (remove_path hs p T)"
proof (cases "p \<in> set (map fst (entries T))")
  case True
  have "distinct (map fst (AList.delete p (entries T)))"
    using assms by (intro distinct_delete) (simp add: consistent_def del: distinct_map)
  then show ?thesis
    using True by (simp add: remove_path_def Let_def consistent_def del: distinct_map)
next
  case False
  then show ?thesis
    using assms by (simp add: remove_path_absent)
qed

lemma tree_ab_eq:
  "entries tree_ab =
     [(''b.txt'', \<lparr> path = ''b.txt'', contentHash = ''h2'', size_entry = 1,
                    mimeType = ''text/plain'', modifiedAt = 0, localRef = None,
                    remoteKey = None \<rparr>),
      (''a.txt'', \<lparr> path = ''a.txt'', contentHash = ''h1'', size_entry = 1,
                    mimeType = ''text/plain'', modifiedAt = 0, localRef = None,
                    remoteKey = None \<rparr>)]"
  "version tree_ab = 2" "rootHash tree_ab = ''a.txt=h1;b.txt=h2;''" "deviceId tree_ab = ''x''"
  by (simp_all add: tree_ab_def upsert_def emptyTree_def rootHashOf_def leaves_def
      sample_hasher_def sample_meta_def Let_def)

text \<open>
  C6. For every tree and path, \<open>remove\<close> leaves a tree that has no entry at the path
  and whose other entries are those of the tree it was given; when the path is absent
  the result is the tree itself, with nothing signalled; and removing twice gives the
  tree that removing once gives. Removal keeps the invariant of the tree (one entry per
  path, a recomputed \<open>rootHash\<close>).
\<close>

theorem remove_path_idempotent:
  "remove_path hs p (remove_path hs p T) = remove_path hs p T
   \<and> p \<notin> set (map fst (entries (remove_path hs p T)))
   \<and> map_of (entries (remove_path hs p T)) = (map_of (entries T))(p := None)
   \<and> (p \<notin> set (map fst (entries T)) \<longrightarrow> remove_path hs p T = T)
   \<and> (consistent hs T \<longrightarrow> consistent hs (remove_path hs p T))"
proof (intro conjI impI)
  show "remove_path hs p (remove_path hs p T) = remove_path hs p T"
    by (rule remove_path_twice)
  show "p \<notin> set (map fst (entries (remove_path hs p T)))"
    by (rule remove_path_gone)
  show "map_of (entries (remove_path hs p T)) = (map_of (entries T))(p := None)"
    by (simp add: remove_path_entries delete_conv')
  show "remove_path hs p T = T" if "p \<notin> set (map fst (entries T))"
    using that by (rule remove_path_absent)
  show "consistent hs (remove_path hs p T)" if "consistent hs T"
    using that by (rule remove_path_consistent)
qed

theorem remove_path_idempotent_witness:
  "''a.txt'' \<in> set (map fst (entries tree_ab))
   \<and> ''c.txt'' \<notin> set (map fst (entries tree_ab))
   \<and> consistent sample_hasher tree_ab
   \<and> map fst (entries (remove_path sample_hasher ''a.txt'' tree_ab)) = [''b.txt'']
   \<and> rootHash (remove_path sample_hasher ''a.txt'' tree_ab) = ''b.txt=h2;''
   \<and> version (remove_path sample_hasher ''a.txt'' tree_ab) = 3
   \<and> remove_path sample_hasher ''a.txt'' (remove_path sample_hasher ''a.txt'' tree_ab)
       = remove_path sample_hasher ''a.txt'' tree_ab
   \<and> remove_path sample_hasher ''c.txt'' tree_ab = tree_ab
   \<and> consistent sample_hasher (remove_path sample_hasher ''a.txt'' tree_ab)"
proof -
  have c: "consistent sample_hasher tree_ab"
    unfolding tree_ab_def by (rule consistent_build [OF consistent_empty])
  have a: "''c.txt'' \<notin> set (map fst (entries tree_ab))"
    by (simp add: tree_ab_eq)
  have r: "map fst (entries (remove_path sample_hasher ''a.txt'' tree_ab)) = [''b.txt'']"
    "rootHash (remove_path sample_hasher ''a.txt'' tree_ab) = ''b.txt=h2;''"
    "version (remove_path sample_hasher ''a.txt'' tree_ab) = 3"
    "''a.txt'' \<in> set (map fst (entries tree_ab))"
    by (simp_all add: remove_path_def tree_ab_eq rootHashOf_def leaves_def sample_hasher_def Let_def)
  from remove_path_idempotent [of sample_hasher "''a.txt''" tree_ab]
       remove_path_idempotent [of sample_hasher "''c.txt''" tree_ab] c a r
  show ?thesis by simp
qed

section \<open>The sync cycle of the client\<close>

lemma delete_requests_append: "delete_requests (xs @ ys) = delete_requests xs @ delete_requests ys"
  by (induction xs rule: delete_requests.induct) simp_all

lemma say_simps:
  "console (say l c) = console c @ [l]" "requests (say l c) = requests c"
  "local_files (say l c) = local_files c" "lastSyncAt (say l c) = lastSyncAt c"
  by (simp_all add: say_def)

lemma send_simps:
  "console (send r c) = console c" "requests (send r c) = requests c @ [r]"
  "local_files (send r c) = local_files c" "lastSyncAt (send r c) = lastSyncAt c"
  by (simp_all add: send_def)

lemma written_simps:
  "console (written p w c) = console c" "requests (written p w c) = requests c"
  "lastSyncAt (written p w c) = lastSyncAt c"
  by (simp_all add: written_def split: option.split)

lemma written_dom: "dom (local_files c) \<subseteq> dom (local_files (written p w c))"
  by (auto simp: written_def split: option.split)

lemma download_one_requests:
  "requests (state_of (downloadFileFromServer env c fm)) =
     (if same_size_exists env c fm then requests c
      else requests c @ [DownloadFile (id_md fm) (localPath_of env fm)])"
  by (simp add: downloadFileFromServer_def Let_def say_simps send_simps written_simps
      split: download_result.split)

lemma download_one_deletes:
  "delete_requests (requests (state_of (downloadFileFromServer env c fm)))
     = delete_requests (requests c)"
  by (simp add: download_one_requests delete_requests_append)

lemma download_one_dom:
  "dom (local_files c) \<subseteq> dom (local_files (state_of (downloadFileFromServer env c fm)))"
proof -
  have "dom (local_files c) \<subseteq> dom (local_files (written p w (send r (say l c))))" for p w r l
    using written_dom [of "send r (say l c)" p w] by (simp add: say_simps send_simps)
  then show ?thesis
    by (simp add: downloadFileFromServer_def Let_def say_simps send_simps
        split: download_result.split)
qed

lemma downloadAll_deletes:
  "delete_requests (requests (state_of (downloadAll env c fms))) = delete_requests (requests c)"
proof (induction fms arbitrary: c)
  case Nil
  show ?case by simp
next
  case (Cons fm fms)
  show ?case
  proof (cases "downloadFileFromServer env c fm")
    case (Returns c1)
    with download_one_deletes [of env c fm] Cons.IH [of c1] show ?thesis by simp
  next
    case (Hangs c1)
    with download_one_deletes [of env c fm] show ?thesis by simp
  qed
qed

lemma downloadAll_dom:
  "dom (local_files c) \<subseteq> dom (local_files (state_of (downloadAll env c fms)))"
proof (induction fms arbitrary: c)
  case Nil
  show ?case by simp
next
  case (Cons fm fms)
  show ?case
  proof (cases "downloadFileFromServer env c fm")
    case (Returns c1)
    have "dom (local_files c) \<subseteq> dom (local_files c1)"
      using download_one_dom [of c env fm] Returns by simp
    also have "\<dots> \<subseteq> dom (local_files (state_of (downloadAll env c1 fms)))"
      by (rule Cons.IH)
    finally show ?thesis using Returns by simp
  next
    case (Hangs c1)
    with download_one_dom [of c env fm] show ?thesis by simp
  qed
qed

lemma completeSync_step_simps:
  "delete_requests (requests (completeSync_step env sd c)) = delete_requests (requests c)"
  "local_files (completeSync_step env sd c) = local_files c"
  by (simp_all add: completeSync_step_def Let_def say_simps send_simps delete_requests_append
      split: option.split)

lemma performSync_deletes:
  "delete_requests (requests (state_of (performSync env c))) = delete_requests (requests c)"
proof -
  have d: "delete_requests (requests (state_of (downloadAll env (say l (send r (say LogStarting c))) fms)))
        = delete_requests (requests c @ [r])" for l r fms
    by (simp add: downloadAll_deletes say_simps send_simps)
  have h: "delete_requests (requests (state_of
             (case x of Hangs c1 \<Rightarrow> Hangs c1 | Returns c1 \<Rightarrow> Returns (completeSync_step env sd c1))))
        = delete_requests (requests (state_of x))" for x sd
    by (cases x) (simp_all add: completeSync_step_simps)
  show ?thesis
    by (simp add: performSync_def Let_def h d say_simps send_simps delete_requests_append
        split: sum.split)
qed

lemma performSync_dom: "dom (local_files c) \<subseteq> dom (local_files (state_of (performSync env c)))"
proof -
  have d: "dom (local_files c)
        \<subseteq> dom (local_files (state_of (downloadAll env (say l (send r (say LogStarting c))) fms)))"
    for l r fms
    using downloadAll_dom [of "say l (send r (say LogStarting c))" env fms]
    by (simp add: say_simps send_simps)
  have h: "local_files (state_of
             (case x of Hangs c1 \<Rightarrow> Hangs c1 | Returns c1 \<Rightarrow> Returns (completeSync_step env sd c1)))
        = local_files (state_of x)" for x sd
    by (cases x) (simp_all add: completeSync_step_simps)
  show ?thesis
    using d by (simp add: performSync_def Let_def h say_simps send_simps split: sum.split)
qed








text \<open>
  C9 does not hold of the code. The server reports three changed files and the
  download of the second breaks after the headers, so that the promise of
  \<^verbatim>\<open>api.downloadFile\<close> never settles. The cycle hangs there: the third file is
  never processed (no line, no request, no file), \<^verbatim>\<open>completeSync\<close> is never sent,
  \<^verbatim>\<open>lastSyncAt\<close> stays as it was and neither "Sync completed" nor a failure is
  reported.
\<close>

theorem hanging_download_blocks_cycle:
  "hangs (performSync second_breaks local_a)
   \<and> console (state_of (performSync second_breaks local_a))
       = [LogStarting, LogFound 3, LogDownloading ''a.txt'', LogDownloading ''b.txt'']
   \<and> requests (state_of (performSync second_breaks local_a))
       = [InitSync ''laptop-001'' None, DownloadFile ''f1'' ''sync/a.txt'',
          DownloadFile ''f2'' ''sync/b.txt'']
   \<and> lastSyncAt (state_of (performSync second_breaks local_a)) = None
   \<and> local_files (state_of (performSync second_breaks local_a)) ''sync/b.txt'' = Some [5]
   \<and> local_files (state_of (performSync second_breaks local_a)) ''sync/c.txt'' = None"
  by (simp add: performSync_def downloadFileFromServer_def same_size_exists_def
      strict_equal_size_def localPath_of_def meta_def second_breaks_def three_changed_def
      local_a_def sample_client_env_def sample_client_def say_def send_def written_def
      truthy_def Let_def)

text \<open>
  C4 does not hold of the code. Removing a file on a device sends no request at all,
  the following sync cycle sends no delete request either, and a sync cycle on any
  device, against any answers of the server, never removes a local file: every path
  present before the cycle is present in the state the cycle reaches, whether it
  returns or hangs.
\<close>

theorem deletion_not_propagated:
  "requests (user_deletes env c p) = requests c
   \<and> delete_requests (requests (state_of (performSync env (user_deletes env c p))))
       = delete_requests (requests c)
   \<and> dom (local_files c') \<subseteq> dom (local_files (state_of (performSync env' c')))"
  using performSync_deletes [of env "user_deletes env c p"] performSync_dom [of c' env']
  by (simp add: user_deletes_def on_unlink_def Let_def say_simps)

theorem deletion_not_propagated_witness:
  "local_files (user_deletes answers local_a ''sync/a.txt'') ''sync/a.txt'' = None
   \<and> performSync answers (user_deletes answers local_a ''sync/a.txt'')
       = Returns (state_of (performSync answers (user_deletes answers local_a ''sync/a.txt'')))
   \<and> requests (state_of (performSync answers (user_deletes answers local_a ''sync/a.txt'')))
       = [InitSync ''laptop-001'' None, CompleteSync ''s1'']
   \<and> console (state_of (performSync answers (user_deletes answers local_a ''sync/a.txt'')))
       = [LogDeletedLocally ''a.txt'', LogStarting, LogNoChanges, LogCompleted]
   \<and> local_files (state_of (performSync answers local_a)) ''sync/a.txt'' = Some [1, 2]"
  using deletion_not_propagated [of answers local_a "''sync/a.txt''" local_a answers]
  by (simp add: performSync_def completeSync_step_def user_deletes_def on_unlink_def
      answers_def local_a_def sample_client_env_def
      sample_client_def say_def send_def truthy_def Let_def)

section \<open>What an upload stores\<close>

lemma upload_miss:
  assumes f: "req_file req = Some f"
    and miss: "existing_by_hash srv (req_user req) (calculateFileHash env (buffer f)) = []"
    and up: "minio_available env"
  shows "files (fst (upload env srv req)) =
           files srv @ [new_row env req f (generateMinioKey env (req_user req) (originalname f))
                          (req_localUrl req)
                          (Some (generateS3Url env (generateMinioKey env (req_user req) (originalname f))))]"
  using f miss up by (simp add: upload_def Let_def putObject_def)

lemma one_file_server_eq:
  "one_file_server = \<lparr> files = [row_a], bucket = [''users/u/files/id1/a.txt'' \<mapsto> object_12] \<rparr>"
  by (simp add: one_file_server_def row_a_def object_12_def sample_request_def sample_env_def
      empty_server_def existing_by_hash_def calculateFileHash_def upload_def generateMinioKey_def
      putObject_def new_row_def generateS3Url_def fullPath_of_def replace_backslashes_def Let_def)

lemma one_file_deleted:
  "delete_file (sample_env i j t) one_file_server ''u'' ''row1''
     = (\<lparr> files = [row_a\<lparr> status := ''deleted'', updated_at := t \<rparr>], bucket = Map.empty \<rparr>,
        Respond 200 (Message ''File deleted successfully''))"
  by (simp add: one_file_server_eq row_a_def delete_file_def active_by_id_def mark_deleted_def sample_env_def)

lemma upload_empty:
  "upload (sample_env i j t) empty_server (sample_request ''u'' ''a.txt'' [1, 2])
     = (\<lparr> files = [row_a\<lparr> id_row := j, minio_key := ''users/u/files/'' @ i @ ''/a.txt'',
                          s3_url := Some (''http://minio/users/u/files/'' @ i @ ''/a.txt?sig''),
                          created_at := t, updated_at := t \<rparr>],
          bucket = [''users/u/files/'' @ i @ ''/a.txt'' \<mapsto> object_12] \<rparr>,
        Respond 201 (FileInfo ''File uploaded successfully''
          (view_of (row_a\<lparr> id_row := j, minio_key := ''users/u/files/'' @ i @ ''/a.txt'',
                          s3_url := Some (''http://minio/users/u/files/'' @ i @ ''/a.txt?sig''),
                          created_at := t, updated_at := t \<rparr>)
             (Some (''http://minio/users/u/files/'' @ i @ ''/a.txt?sig'')))))"
  by (simp add: row_a_def object_12_def sample_request_def sample_env_def
      empty_server_def existing_by_hash_def calculateFileHash_def upload_def generateMinioKey_def
      putObject_def new_row_def generateS3Url_def fullPath_of_def replace_backslashes_def
      view_of_def Let_def)

lemma upload_after_delete:
  "fst (upload (sample_env i j t)
         \<lparr> files = [row_a\<lparr> status := ''deleted'', updated_at := t' \<rparr>], bucket = Map.empty \<rparr>
         (sample_request ''u'' ''a.txt'' [1, 2]))
     = \<lparr> files = [row_a\<lparr> status := ''deleted'', updated_at := t' \<rparr>,
                  row_a\<lparr> id_row := j, minio_key := ''users/u/files/'' @ i @ ''/a.txt'',
                          s3_url := Some (''http://minio/users/u/files/'' @ i @ ''/a.txt?sig''),
                          created_at := t, updated_at := t \<rparr>],
          bucket = [''users/u/files/'' @ i @ ''/a.txt'' \<mapsto> object_12] \<rparr>"
  by (simp add: row_a_def object_12_def upload_def sample_env_def sample_request_def
      existing_by_hash_def calculateFileHash_def generateMinioKey_def putObject_def new_row_def
      generateS3Url_def fullPath_of_def replace_backslashes_def Let_def)

text \<open>
  C5 does not hold of the code. When the upload route stores new content, the row it
  inserts carries, in its \<^verbatim>\<open>s3_url\<close> column, the presigned URL (one hour of validity)
  that \<^verbatim>\<open>generateS3Url\<close> obtained during the request: the time-limited URL is
  written to the database next to the permanent \<^verbatim>\<open>minio_key\<close>.
\<close>

theorem upload_persists_presigned_url:
  assumes f: "req_file req = Some f"
    and miss: "existing_by_hash srv (req_user req) (calculateFileHash env (buffer f)) = []"
    and up: "minio_available env"
    and url: "presignedGetObject env (generateMinioKey env (req_user req) (originalname f)) (60 * 60)
                = Some url"
  shows "\<exists>r. files (fst (upload env srv req)) = files srv @ [r]
           \<and> minio_key r = generateMinioKey env (req_user req) (originalname f)
           \<and> s3_url r = Some url"
  using upload_miss [OF f miss up] url
  by (simp add: new_row_def generateS3Url_def)

theorem upload_persists_presigned_url_witness:
  "req_file (sample_request ''u'' ''a.txt'' [1, 2]) =
     Some \<lparr> originalname = ''a.txt'', buffer = [1, 2], mimetype = ''text/plain'', size_file = 2 \<rparr>
   \<and> existing_by_hash empty_server ''u'' (map char_of [1, 2::nat]) = []
   \<and> presignedGetObject (sample_env ''id1'' ''row1'' 1) ''users/u/files/id1/a.txt'' 3600
        = Some ''http://minio/users/u/files/id1/a.txt?sig''
   \<and> map s3_url (files (fst (upload (sample_env ''id1'' ''row1'' 1) empty_server
          (sample_request ''u'' ''a.txt'' [1, 2]))))
        = [Some ''http://minio/users/u/files/id1/a.txt?sig'']"
  using upload_persists_presigned_url
    [of "sample_request ''u'' ''a.txt'' [1, 2]"
        "\<lparr> originalname = ''a.txt'', buffer = [1, 2], mimetype = ''text/plain'', size_file = 2 \<rparr>"
        empty_server "sample_env ''id1'' ''row1'' 1" "''http://minio/users/u/files/id1/a.txt?sig''"]
  by (simp add: sample_request_def sample_env_def empty_server_def existing_by_hash_def
      calculateFileHash_def upload_def generateMinioKey_def putObject_def new_row_def
      generateS3Url_def fullPath_of_def replace_backslashes_def view_of_def Let_def)

text \<open>
  C7, as the spec states it, fails on \<^verbatim>\<open>generateMinioKey\<close>. The same user uploads
  the same bytes under the same name to the same (empty) server twice; the two runs
  differ only in the UUID drawn, and the keys differ. In one run, uploading, deleting
  and uploading the same bytes again gives the second object another key.
\<close>

theorem same_content_different_key_counterexample:
  "map minio_key (files (fst (upload (sample_env ''id1'' ''row1'' 1) empty_server
        (sample_request ''u'' ''a.txt'' [1, 2])))) = [''users/u/files/id1/a.txt'']
   \<and> map minio_key (files (fst (upload (sample_env ''id2'' ''row1'' 1) empty_server
        (sample_request ''u'' ''a.txt'' [1, 2])))) = [''users/u/files/id2/a.txt'']
   \<and> map minio_key (files (fst (upload (sample_env ''id2'' ''row2'' 3)
        (fst (delete_file (sample_env ''id0'' ''row0'' 2) one_file_server ''u'' ''row1''))
        (sample_request ''u'' ''a.txt'' [1, 2]))))
       = [''users/u/files/id1/a.txt'', ''users/u/files/id2/a.txt'']"
  unfolding upload_empty one_file_deleted fst_conv upload_after_delete
  by (simp add: row_a_def)

text \<open>
  C7, amended. The key under which the upload route stores new content is
  \<^verbatim>\<open>users/<userId>/files/<uuid>/<filename>\<close>, with the UUID drawn during the request:
  it is made of the user, the UUID and the file name, not of the content hash, and for
  one user and file name two keys are equal exactly when the UUIDs drawn are equal.
\<close>

theorem fresh_key_from_uuid:
  assumes f: "req_file req = Some f"
    and miss: "existing_by_hash srv (req_user req) (calculateFileHash env (buffer f)) = []"
    and up: "minio_available env"
  shows "map minio_key (files (fst (upload env srv req)))
           = map minio_key (files srv)
             @ [''users/'' @ req_user req @ ''/files/'' @ uuidv4 env @ ''/'' @ originalname f]
    \<and> (generateMinioKey (env\<lparr> uuidv4 := a \<rparr>) uid n = generateMinioKey (env\<lparr> uuidv4 := b \<rparr>) uid n)
        = (a = b)"
  using upload_miss [OF f miss up]
  by (simp add: new_row_def generateMinioKey_def)

theorem fresh_key_from_uuid_witness:
  "req_file (sample_request ''u'' ''a.txt'' [1, 2]) =
     Some \<lparr> originalname = ''a.txt'', buffer = [1, 2], mimetype = ''text/plain'', size_file = 2 \<rparr>
   \<and> existing_by_hash empty_server ''u'' (map char_of [1, 2::nat]) = []
   \<and> minio_available (sample_env ''id1'' ''row1'' 1)
   \<and> map minio_key (files (fst (upload (sample_env ''id1'' ''row1'' 1) empty_server
          (sample_request ''u'' ''a.txt'' [1, 2]))))
        = [''users/u/files/id1/a.txt'']"
  using fresh_key_from_uuid
    [of "sample_request ''u'' ''a.txt'' [1, 2]"
        "\<lparr> originalname = ''a.txt'', buffer = [1, 2], mimetype = ''text/plain'', size_file = 2 \<rparr>"
        empty_server "sample_env ''id1'' ''row1'' 1"]
  by (simp add: sample_request_def sample_env_def empty_server_def existing_by_hash_def
      calculateFileHash_def)

section \<open>Deleting a file\<close>

lemma two_file_server_eq:
  "two_file_server =
     \<lparr> files = [row_a\<lparr> s3_url := None \<rparr>, row_b],
       bucket = [''users/u/files/id1/a.txt'' \<mapsto> object_12, ''users/u/files/id2/b.txt'' \<mapsto> object_12] \<rparr>"
  by (simp add: two_file_server_def row_a_def row_b_def object_12_def upload_v1_def sample_env_def
      sample_request_def empty_server_def existing_by_path_def calculateFileHash_def
      generateMinioKey_def putObject_def new_row_def fullPath_of_def replace_backslashes_def Let_def)

lemma two_file_deleted:
  "fst (delete_file (sample_env i j t) two_file_server ''u'' ''row1'')
     = \<lparr> files = [row_a\<lparr> s3_url := None, status := ''deleted'', updated_at := t \<rparr>, row_b],
         bucket = [''users/u/files/id1/a.txt'' \<mapsto> object_12,
                   ''users/u/files/id2/b.txt'' \<mapsto> object_12](''users/u/files/id1/a.txt'' := None) \<rparr>"
  unfolding two_file_server_eq
  by (simp add: row_a_def row_b_def delete_file_def active_by_id_def mark_deleted_def sample_env_def)

text \<open>
  C8, as the spec states it, fails on \<^verbatim>\<open>router.delete('/:fileId')\<close>. Two active
  rows of one user have the same content hash, each with its own stored object.
  Deleting the first row removes its object from the bucket although the second row,
  still active, has that content hash.
\<close>

theorem delete_removes_object_counterexample:
  "map file_hash (filter (\<lambda>r. status r = ''active'') (files two_file_server))
     = [map char_of [1, 2::nat], map char_of [1, 2::nat]]
   \<and> map_option object_data (bucket two_file_server ''users/u/files/id1/a.txt'') = Some [1, 2]
   \<and> bucket (fst (delete_file (sample_env ''id3'' ''row3'' 3) two_file_server ''u'' ''row1''))
        ''users/u/files/id1/a.txt'' = None
   \<and> map file_hash (filter (\<lambda>r. status r = ''active'')
        (files (fst (delete_file (sample_env ''id3'' ''row3'' 3) two_file_server ''u'' ''row1''))))
     = [map char_of [1, 2::nat]]"
  unfolding two_file_deleted unfolding two_file_server_eq
  by (simp add: row_a_def row_b_def object_12_def)

text \<open>
  C8, amended. A delete that finds the user's active row and reaches MinIO removes the
  object stored under that row's own \<^verbatim>\<open>minio_key\<close>, whatever other rows have the
  same content hash, and marks the rows with that id as deleted; the object under every
  other key is left as it was.
\<close>

theorem delete_removes_own_object:
  assumes act: "active_by_id srv fid uid = row # rest"
    and up: "minio_available env"
  shows "bucket (fst (delete_file env srv uid fid)) = (bucket srv)(minio_key row := None)
    \<and> (\<forall>k. k \<noteq> minio_key row \<longrightarrow> bucket (fst (delete_file env srv uid fid)) k = bucket srv k)
    \<and> files (fst (delete_file env srv uid fid)) = map (mark_deleted env fid) (files srv)"
  using act up by (simp add: delete_file_def)

theorem delete_removes_own_object_witness:
  "active_by_id two_file_server ''row1'' ''u'' = [hd (files two_file_server)]
   \<and> minio_key (hd (files two_file_server)) = ''users/u/files/id1/a.txt''
   \<and> minio_available (sample_env ''id3'' ''row3'' 3)
   \<and> bucket (fst (delete_file (sample_env ''id3'' ''row3'' 3) two_file_server ''u'' ''row1''))
       = (bucket two_file_server)(''users/u/files/id1/a.txt'' := None)
   \<and> map_option object_data
        (bucket (fst (delete_file (sample_env ''id3'' ''row3'' 3) two_file_server ''u'' ''row1''))
           ''users/u/files/id2/b.txt'') = Some [1, 2]"
proof -
  have a: "active_by_id two_file_server ''row1'' ''u'' = [hd (files two_file_server)]"
    unfolding two_file_server_eq by (simp add: active_by_id_def row_a_def row_b_def)
  have k: "minio_key (hd (files two_file_server)) = ''users/u/files/id1/a.txt''"
    unfolding two_file_server_eq by (simp add: row_a_def)
  have u: "minio_available (sample_env ''id3'' ''row3'' 3)"
    by (simp add: sample_env_def)
  have o: "map_option object_data
        (bucket (fst (delete_file (sample_env ''id3'' ''row3'' 3) two_file_server ''u'' ''row1''))
           ''users/u/files/id2/b.txt'') = Some [1, 2]"
    unfolding two_file_deleted by (simp add: object_12_def)
  from delete_removes_own_object [OF a u] k a u o show ?thesis by simp
qed

end
